theory Spec2Isabelle
  imports Main
begin

section \<open>JavaScript values\<close>

text \<open>
  The handler of \<^verbatim>\<open>src/api/mcp.ts\<close> works on parsed JSON: the request body, the
  arguments of a tool call and the data of a provider's reply. A value is one of
  JavaScript's primitives, an array or a plain object (its own properties in order, each
  name once). Strings are byte strings (UTF-8).

  A number is held as the text that \<^verbatim>\<open>String(n)\<close> gives for it, such as \<^verbatim>\<open>0\<close>,
  \<^verbatim>\<open>-32000\<close>, \<^verbatim>\<open>1.5\<close> or \<^verbatim>\<open>1e+21\<close>. The handler computes with no number: it
  tests one for truth, compares two with \<^verbatim>\<open>===\<close>, and prints one. Of the numbers that
  \<^verbatim>\<open>JSON.parse\<close> yields, only zero is falsy, and its text is \<^verbatim>\<open>0\<close> whatever its
  sign; two of them are equal exactly when their texts are. \<^verbatim>\<open>NaN\<close>, which no parsed
  number is, is falsy and equal to nothing.
\<close>

datatype json =
    JUndefined
  | JNull
  | JBool bool
  | JNum string
  | JStr string
  | JArr "json list"
  | JObj "(string \<times> json) list"

text \<open>What the handler throws: \<^verbatim>\<open>new Error(msg)\<close>, or the engine's TypeError.\<close>

datatype exn = Error string | TypeError string

fun message :: "exn \<Rightarrow> string" where
  "message (Error m) = m"
| "message (TypeError m) = m"

text \<open>Truthiness, as \<^verbatim>\<open>!x\<close>, \<^verbatim>\<open>x ? a : b\<close> and \<^verbatim>\<open>x || y\<close> read it.\<close>

fun truthy :: "json \<Rightarrow> bool" where
  "truthy JUndefined = False"
| "truthy JNull = False"
| "truthy (JBool b) = b"
| "truthy (JNum t) = (t \<noteq> ''0'' \<and> t \<noteq> ''NaN'')"
| "truthy (JStr s) = (s \<noteq> [])"
| "truthy (JArr xs) = True"
| "truthy (JObj kvs) = True"

definition js_or :: "json \<Rightarrow> json \<Rightarrow> json" where
  "js_or a b = (if truthy a then a else b)"

text \<open>
  \<^verbatim>\<open>a === b\<close> between a value and a string literal, or between values of two
  different replies: primitives compare by value, arrays and objects by identity, and
  two parsed values never share one.
\<close>

fun strict_eq :: "json \<Rightarrow> json \<Rightarrow> bool" where
  "strict_eq JUndefined JUndefined = True"
| "strict_eq JNull JNull = True"
| "strict_eq (JBool a) (JBool b) = (a = b)"
| "strict_eq (JNum a) (JNum b) = (a = b \<and> a \<noteq> ''NaN'')"
| "strict_eq (JStr a) (JStr b) = (a = b)"
| "strict_eq a b = False"

fun nullish :: "json \<Rightarrow> bool" where
  "nullish JUndefined = True"
| "nullish JNull = True"
| "nullish v = False"

text \<open>
  \<^verbatim>\<open>v.k\<close> on a value that is neither undefined nor null: an object's own property,
  undefined when it has none. None of the names the handler reads is a property of a
  string, a number, a boolean or an array.
\<close>

fun own :: "json \<Rightarrow> string \<Rightarrow> json" where
  "own (JObj kvs) k = (case map_of kvs k of None \<Rightarrow> JUndefined | Some v \<Rightarrow> v)"
| "own v k = JUndefined"

text \<open>\<^verbatim>\<open>v?.k\<close>: undefined on undefined and null as well.\<close>

definition opt :: "json \<Rightarrow> string \<Rightarrow> json" where
  "opt v k = (if nullish v then JUndefined else own v k)"

subsection \<open>Template literals\<close>

text \<open>
  A template literal converts each value it holds to a string. A primitive has its text.
  An array is joined with commas, each element converted in turn, undefined and null to
  the empty string. A plain object is \<^verbatim>\<open>[object Object]\<close> by the method it inherits;
  but when it has a property of its own named \<^verbatim>\<open>toString\<close>, that property (a parsed
  value, never a function) hides the method, and the conversion throws.
\<close>

definition not_primitive :: exn where
  "not_primitive = TypeError ''Cannot convert object to primitive value''"

fun join :: "string \<Rightarrow> string list \<Rightarrow> string" where
  "join sep [] = []"
| "join sep [s] = s"
| "join sep (s # t # ss) = s @ sep @ join sep (t # ss)"

fun to_string :: "json \<Rightarrow> exn + string"
  and to_strings :: "json list \<Rightarrow> exn + string list" where
  "to_string JUndefined = Inr ''undefined''"
| "to_string JNull = Inr ''null''"
| "to_string (JBool b) = Inr (if b then ''true'' else ''false'')"
| "to_string (JNum t) = Inr t"
| "to_string (JStr s) = Inr s"
| "to_string (JArr xs) =
     (case to_strings xs of Inl e \<Rightarrow> Inl e | Inr ss \<Rightarrow> Inr (join '','' ss))"
| "to_string (JObj kvs) =
     (if map_of kvs ''toString'' \<noteq> None then Inl not_primitive else Inr ''[object Object]'')"
| "to_strings [] = Inr []"
| "to_strings (x # xs) =
     (case (if nullish x then Inr [] else to_string x) of
        Inl e \<Rightarrow> Inl e
      | Inr s \<Rightarrow> (case to_strings xs of Inl e \<Rightarrow> Inl e | Inr ss \<Rightarrow> Inr (s # ss)))"

text \<open>
  A template literal is its parts from left to right, fixed text and values; the first
  value that cannot be converted ends it.
\<close>

datatype part = Lit string | Val json

fun template :: "part list \<Rightarrow> exn + string" where
  "template [] = Inr []"
| "template (Lit s # ps) = (case template ps of Inl e \<Rightarrow> Inl e | Inr t \<Rightarrow> Inr (s @ t))"
| "template (Val v # ps) =
     (case to_string v of
        Inl e \<Rightarrow> Inl e
      | Inr s \<Rightarrow> (case template ps of Inl e \<Rightarrow> Inl e | Inr t \<Rightarrow> Inr (s @ t)))"

text \<open>
  \<^verbatim>\<open>throw new Error(`...`)\<close>: the error with the text of the template, or what the
  template threw.
\<close>

definition new_Error :: "part list \<Rightarrow> exn" where
  "new_Error ps = (case template ps of Inl e \<Rightarrow> e | Inr m \<Rightarrow> Error m)"

text \<open>
  \<^verbatim>\<open>new Date(v)\<close> first makes an array or an object a primitive, which is the same
  conversion to a string.
\<close>

definition to_primitive :: "json \<Rightarrow> exn + json" where
  "to_primitive v =
     (case v of
        JArr xs \<Rightarrow> (case to_string v of Inl e \<Rightarrow> Inl e | Inr s \<Rightarrow> Inr (JStr s))
      | JObj kvs \<Rightarrow> (case to_string v of Inl e \<Rightarrow> Inl e | Inr s \<Rightarrow> Inr (JStr s))
      | _ \<Rightarrow> Inr v)"

subsection \<open>What \<^verbatim>\<open>res.json\<close> puts on the wire\<close>

text \<open>
  \<^verbatim>\<open>JSON.stringify\<close> leaves out an object's property whose value is undefined, writes
  null for an undefined array element and for a number that is not finite. \<open>wire v\<close> is
  the JSON value a client parses from the body.
\<close>

fun wire :: "json \<Rightarrow> json" where
  "wire (JArr xs) = JArr (map (\<lambda>x. if x = JUndefined then JNull else wire x) xs)"
| "wire (JObj kvs) =
     JObj (map (\<lambda>(k, v). (k, wire v)) (filter (\<lambda>(k, v). v \<noteq> JUndefined) kvs))"
| "wire (JNum t) =
     (if t = ''Infinity'' \<or> t = ''-Infinity'' \<or> t = ''NaN'' then JNull else JNum t)"
| "wire v = v"

fun has_key :: "json \<Rightarrow> string \<Rightarrow> bool" where
  "has_key (JObj kvs) k = (map_of kvs k \<noteq> None)"
| "has_key v k = False"

subsection \<open>The engine's TypeErrors\<close>

text \<open>
  Reading a property of undefined or null throws. The wording of the message is the
  engine's (V8's is used here).
\<close>

definition quote :: "string \<Rightarrow> string" where
  "quote s = CHR 0x27 # s @ [CHR 0x27]"

definition nullish_text :: "json \<Rightarrow> string" where
  "nullish_text v = (if v = JNull then ''null'' else ''undefined'')"

definition cannot_destructure :: "string \<Rightarrow> string \<Rightarrow> json \<Rightarrow> exn" where
  "cannot_destructure p src v =
     TypeError (''Cannot destructure property '' @ quote p @ '' of '' @ quote src
       @ '' as it is '' @ nullish_text v @ ''.'')"

definition cannot_read :: "json \<Rightarrow> string \<Rightarrow> exn" where
  "cannot_read v p =
     TypeError (''Cannot read properties of '' @ nullish_text v @ '' (reading '' @ quote p @ '')'')"

section \<open>The process and the network\<close>

text \<open>
  What the handler reads from its process: the two tokens of \<^verbatim>\<open>process.env\<close>
  (absent, or a string), the identifier that the call of \<^verbatim>\<open>uuidv4()\<close> returns, and
  \<^verbatim>\<open>new Date(p).toLocaleString()\<close> for a primitive \<open>p\<close>, which depends on the locale
  and the time zone.
\<close>

record host =
  VERCEL_TOKEN :: "string option"
  RENDER_TOKEN :: "string option"
  uuidv4 :: string
  toLocaleString :: "json \<Rightarrow> string"

text \<open>
  An outbound call of axios (URL, body, headers) and its outcome: the promise resolves
  with \<^verbatim>\<open>response.data\<close>, or rejects with an error of which the clients read
  \<^verbatim>\<open>error.response?.data\<close> and \<^verbatim>\<open>error.message\<close>.
\<close>

datatype http_call =
    AxiosPost string json "(string \<times> string) list"
  | AxiosGet string "(string \<times> string) list"

datatype axios_outcome = Resolved json | Rejected json string

type_synonym network = "http_call \<Rightarrow> axios_outcome"

text \<open>A computation of the handler: what it returned or threw, and the calls it made.\<close>

type_synonym 'a traced = "(exn + 'a) \<times> http_call list"

section \<open>The API clients\<close>

definition vercel_baseURL :: string where
  "vercel_baseURL = ''https://api.vercel.com''"

definition render_baseURL :: string where
  "render_baseURL = ''https://api.render.com/v1''"

text \<open>
  The three requests of the clients, with the token of the instance. The body of a
  deployment is the object passed to \<^verbatim>\<open>axios.post\<close>.
\<close>

definition createDeployment_call :: "string \<Rightarrow> json \<Rightarrow> json \<Rightarrow> http_call" where
  "createDeployment_call token projectName gitSource =
     AxiosPost (vercel_baseURL @ ''/v13/deployments'')
       (JObj [(''name'', projectName), (''target'', JStr ''production''),
              (''gitSource'', js_or gitSource
                 (JObj [(''type'', JStr ''github''), (''ref'', JStr ''main'')]))])
       [(''Authorization'', ''Bearer '' @ token), (''Content-Type'', ''application/json'')]"

definition triggerDeployment_call :: "string \<Rightarrow> string \<Rightarrow> http_call" where
  "triggerDeployment_call token serviceId =
     AxiosPost (render_baseURL @ ''/services/'' @ serviceId @ ''/deploys'')
       (JObj [])
       [(''Authorization'', ''Bearer '' @ token), (''Content-Type'', ''application/json'')]"

definition getServices_call :: "string \<Rightarrow> http_call" where
  "getServices_call token =
     AxiosGet (render_baseURL @ ''/services'') [(''Authorization'', ''Bearer '' @ token)]"

text \<open>\<^verbatim>\<open>VercelAPI.createDeployment(projectName, gitSource)\<close>, lines 15 to 38.\<close>

definition createDeployment :: "string \<Rightarrow> network \<Rightarrow> json \<Rightarrow> json \<Rightarrow> json traced" where
  "createDeployment token net projectName gitSource =
     (case net (createDeployment_call token projectName gitSource) of
        Resolved d \<Rightarrow> Inr d
      | Rejected rd m \<Rightarrow>
          Inl (new_Error [Lit ''Vercel deployment failed: '',
                 Val (js_or (opt (opt rd ''error'') ''message'') (JStr m))]),
      [createDeployment_call token projectName gitSource])"

text \<open>
  \<^verbatim>\<open>RenderAPI.triggerDeployment(serviceId)\<close>, lines 50 to 66. The URL is a template
  inside the \<^verbatim>\<open>try\<close>: when the identifier cannot be converted, no request is made and
  the method's own \<^verbatim>\<open>catch\<close> wraps the TypeError, which has no \<^verbatim>\<open>response\<close>.
\<close>

definition triggerDeployment :: "string \<Rightarrow> network \<Rightarrow> json \<Rightarrow> json traced" where
  "triggerDeployment token net serviceId =
     (case to_string serviceId of
        Inl e \<Rightarrow>
          (Inl (new_Error [Lit ''Render deployment failed: '',
                  Val (js_or JUndefined (JStr (message e)))]), [])
      | Inr sid \<Rightarrow>
          (case net (triggerDeployment_call token sid) of
             Resolved d \<Rightarrow> Inr d
           | Rejected rd m \<Rightarrow>
               Inl (new_Error [Lit ''Render deployment failed: '',
                      Val (js_or (opt rd ''message'') (JStr m))]),
           [triggerDeployment_call token sid]))"

text \<open>\<^verbatim>\<open>RenderAPI.getServices()\<close>, lines 68 to 82.\<close>

definition getServices :: "string \<Rightarrow> network \<Rightarrow> json traced" where
  "getServices token net =
     (case net (getServices_call token) of
        Resolved d \<Rightarrow> Inr d
      | Rejected rd m \<Rightarrow> Inl (new_Error [Lit ''Failed to get Render services: '', Val (JStr m)]),
      [getServices_call token])"

section \<open>The handler of \<^verbatim>\<open>src/api/mcp.ts\<close>\<close>

subsection \<open>Texts\<close>

definition nl :: string where
  "nl = [CHR 0x0A]"

definition dquote :: string where
  "dquote = [CHR 0x22]"

text \<open>The pictographs of the texts, as their UTF-8 bytes.\<close>

definition rocket :: string where
  "rocket = [CHR 0xF0, CHR 0x9F, CHR 0x9A, CHR 0x80]"

definition check_mark :: string where
  "check_mark = [CHR 0xE2, CHR 0x9C, CHR 0x85]"

definition id_button :: string where
  "id_button = [CHR 0xF0, CHR 0x9F, CHR 0x86, CHR 0x94]"

definition link_sign :: string where
  "link_sign = [CHR 0xF0, CHR 0x9F, CHR 0x94, CHR 0x97]"

definition bar_chart :: string where
  "bar_chart = [CHR 0xF0, CHR 0x9F, CHR 0x93, CHR 0x8A]"

definition glowing_star :: string where
  "glowing_star = [CHR 0xF0, CHR 0x9F, CHR 0x8C, CHR 0x9F]"

definition stopwatch :: string where
  "stopwatch = [CHR 0xE2, CHR 0x8F, CHR 0xB1, CHR 0xEF, CHR 0xB8, CHR 0x8F]"

definition one_oclock :: string where
  "one_oclock = [CHR 0xF0, CHR 0x9F, CHR 0x95, CHR 0x90]"

text \<open>Lines 199 to 204: the text of a started Vercel deployment (a reply that is not nullish).\<close>

definition vercel_text :: "json \<Rightarrow> exn + string" where
  "vercel_text deployment =
     template
       [Lit (check_mark @ '' Vercel deployment started!'' @ nl @ nl),
        Lit (id_button @ '' Deployment ID: ''), Val (own deployment ''id''), Lit nl,
        Lit (link_sign @ '' URL: https://''), Val (own deployment ''url''), Lit nl,
        Lit (bar_chart @ '' Status: ''),
          Val (js_or (own deployment ''readyState'') (JStr ''BUILDING'')), Lit nl,
        Lit (glowing_star @ '' Target: ''), Val (own deployment ''target''), Lit (nl @ nl),
        Lit (stopwatch @ '' Check status with deployment ID: ''), Val (own deployment ''id'')]"

text \<open>Lines 239 to 243: the text of a started Render deployment.\<close>

definition render_text :: "host \<Rightarrow> json \<Rightarrow> json \<Rightarrow> exn + string" where
  "render_text h deployment actualServiceId =
     (case template
        [Lit (check_mark @ '' Render deployment started!'' @ nl @ nl),
         Lit (id_button @ '' Deployment ID: ''), Val (own deployment ''id''), Lit nl,
         Lit (link_sign @ '' Service ID: ''), Val actualServiceId, Lit nl,
         Lit (bar_chart @ '' Status: ''), Val (own deployment ''status''), Lit nl] of
        Inl e \<Rightarrow> Inl e
      | Inr t \<Rightarrow>
          (case to_primitive (own deployment ''createdAt'') of
             Inl e \<Rightarrow> Inl e
           | Inr p \<Rightarrow> Inr (t @ one_oclock @ '' Created: '' @ toLocaleString h p @ nl)))"

subsection \<open>Envelopes\<close>

text \<open>The objects the handler passes to \<^verbatim>\<open>res.status(200).json\<close>.\<close>

definition result_envelope :: "json \<Rightarrow> json \<Rightarrow> json" where
  "result_envelope r i = JObj [(''jsonrpc'', JStr ''2.0''), (''result'', r), (''id'', i)]"

definition error_envelope :: "string \<Rightarrow> json \<Rightarrow> json" where
  "error_envelope m i =
     JObj [(''jsonrpc'', JStr ''2.0''),
           (''error'', JObj [(''code'', JNum ''-32000''), (''message'', JStr m)]),
           (''id'', i)]"

definition text_content :: "string \<Rightarrow> json" where
  "text_content t = JObj [(''content'', JArr [JObj [(''type'', JStr ''text''), (''text'', JStr t)]])]"

text \<open>Lines 126 to 135: the result of \<^verbatim>\<open>initialize\<close>.\<close>

definition initialize_result :: json where
  "initialize_result =
     JObj [(''protocolVersion'', JStr ''2024-11-05''),
           (''capabilities'', JObj [(''tools'', JObj [(''listChanged'', JBool True)])]),
           (''serverInfo'', JObj [(''name'', JStr ''deployment-orchestrator''),
                                 (''version'', JStr ''1.0.0'')])]"

text \<open>Lines 144 to 172: the result of \<^verbatim>\<open>tools/list\<close>.\<close>

definition tools_list_result :: json where
  "tools_list_result =
     JObj [(''tools'', JArr [
       JObj [(''name'', JStr ''deploy-vercel''),
             (''description'', JStr ''Deploy projects to Vercel''),
             (''inputSchema'', JObj [
                (''type'', JStr ''object''),
                (''properties'', JObj [
                   (''projectName'', JObj [(''type'', JStr ''string''),
                      (''description'', JStr ''Vercel project name'')]),
                   (''gitRepo'', JObj [(''type'', JStr ''string''),
                      (''description'', JStr ''GitHub repository (owner/repo)'')]),
                   (''branch'', JObj [(''type'', JStr ''string''),
                      (''description'', JStr ''Git branch to deploy''),
                      (''default'', JStr ''main'')])]),
                (''required'', JArr [JStr ''projectName''])])],
       JObj [(''name'', JStr ''deploy-render''),
             (''description'', JStr ''Deploy services to Render''),
             (''inputSchema'', JObj [
                (''type'', JStr ''object''),
                (''properties'', JObj [
                   (''serviceId'', JObj [(''type'', JStr ''string''),
                      (''description'', JStr ''Render service ID'')]),
                   (''serviceName'', JObj [(''type'', JStr ''string''),
                      (''description'', JStr (''Service name (if you don'' @ [CHR 0x27]
                         @ ''t know the ID)''))])]),
                (''required'', JArr [JStr ''serviceId''])])]])]"

subsection \<open>The tools\<close>

text \<open>
  A string that may be absent (a variable of \<^verbatim>\<open>process.env\<close>, a request header) is
  falsy when it is absent or empty: \<^verbatim>\<open>!x\<close> is \<open>\<not> given x\<close>.
\<close>

fun given :: "string option \<Rightarrow> bool" where
  "given None = False"
| "given (Some t) = (t \<noteq> [])"

text \<open>Lines 182 and 191 to 195: the source of a deployment, with the default of the branch.\<close>

definition gitSource_of :: "json \<Rightarrow> json" where
  "gitSource_of args =
     (let gitRepo = own args ''gitRepo'';
          branch = (if own args ''branch'' = JUndefined then JStr ''main''
                    else own args ''branch'')
      in if truthy gitRepo
         then JObj [(''type'', JStr ''github''), (''repo'', gitRepo), (''ref'', branch)]
         else JUndefined)"

text \<open>
  Lines 181 to 214: \<^verbatim>\<open>deploy-vercel\<close>; \<open>i\<close> is the \<^verbatim>\<open>id\<close> of the request. The
  arguments are destructured before the token is read; past the check of line 185 the
  token is a string that is not empty.
\<close>

definition deploy_vercel :: "host \<Rightarrow> network \<Rightarrow> json \<Rightarrow> json \<Rightarrow> json traced" where
  "deploy_vercel h net args i =
     (if nullish args then (Inl (cannot_destructure ''projectName'' ''args'' args), [])
      else if \<not> given (VERCEL_TOKEN h)
      then (Inl (Error ''VERCEL_TOKEN environment variable is required''), [])
      else
        (case createDeployment (the (VERCEL_TOKEN h)) net (own args ''projectName'')
                (gitSource_of args) of
           (Inl e, cs) \<Rightarrow> (Inl e, cs)
         | (Inr deployment, cs) \<Rightarrow>
             if nullish deployment then (Inl (cannot_read deployment ''id''), cs)
             else (case vercel_text deployment of
                     Inl e \<Rightarrow> (Inl e, cs)
                   | Inr result \<Rightarrow> (Inr (result_envelope (text_content result) i), cs))))"

text \<open>\<^verbatim>\<open>services.find((s) => s.name === serviceName)\<close> on the elements of an array.\<close>

fun js_find :: "json list \<Rightarrow> json \<Rightarrow> exn + json" where
  "js_find [] serviceName = Inr JUndefined"
| "js_find (s # ss) serviceName =
     (if nullish s then Inl (cannot_read s ''name'')
      else if strict_eq (own s ''name'') serviceName then Inr s
      else js_find ss serviceName)"

text \<open>Lines 229 to 234: the service identifier of a service name.\<close>

definition actualServiceId_of :: "string \<Rightarrow> network \<Rightarrow> json \<Rightarrow> json traced" where
  "actualServiceId_of token net serviceName =
     (case getServices token net of
        (Inl e, cs) \<Rightarrow> (Inl e, cs)
      | (Inr services, cs) \<Rightarrow>
          (case services of
             JArr ss \<Rightarrow>
               (case js_find ss serviceName of
                  Inl e \<Rightarrow> (Inl e, cs)
                | Inr service \<Rightarrow>
                    if \<not> truthy service
                    then (Inl (new_Error [Lit (''Service '' @ dquote), Val serviceName,
                                 Lit (dquote @ '' not found'')]), cs)
                    else (Inr (own service ''id''), cs))
           | JUndefined \<Rightarrow> (Inl (cannot_read services ''find''), cs)
           | JNull \<Rightarrow> (Inl (cannot_read services ''find''), cs)
           | _ \<Rightarrow> (Inl (TypeError ''services.find is not a function''), cs)))"

text \<open>Lines 216 to 253: \<^verbatim>\<open>deploy-render\<close>.\<close>

definition deploy_render :: "host \<Rightarrow> network \<Rightarrow> json \<Rightarrow> json \<Rightarrow> json traced" where
  "deploy_render h net args i =
     (if nullish args then (Inl (cannot_destructure ''serviceId'' ''args'' args), [])
      else
        let serviceId = own args ''serviceId'';
            serviceName = own args ''serviceName''
        in if \<not> given (RENDER_TOKEN h)
           then (Inl (Error ''RENDER_TOKEN environment variable is required''), [])
           else
             (case (if \<not> truthy serviceId \<and> truthy serviceName
                    then actualServiceId_of (the (RENDER_TOKEN h)) net serviceName
                    else (Inr serviceId, [])) of
                (Inl e, cs) \<Rightarrow> (Inl e, cs)
              | (Inr actualServiceId, cs) \<Rightarrow>
                  (case triggerDeployment (the (RENDER_TOKEN h)) net actualServiceId of
                     (Inl e, cs') \<Rightarrow> (Inl e, cs @ cs')
                   | (Inr deployment, cs') \<Rightarrow>
                       if nullish deployment then (Inl (cannot_read deployment ''id''), cs @ cs')
                       else (case render_text h deployment actualServiceId of
                               Inl e \<Rightarrow> (Inl e, cs @ cs')
                             | Inr result \<Rightarrow>
                                 (Inr (result_envelope (text_content result) i), cs @ cs')))))"

text \<open>Line 255: what a call of a name that is neither tool throws.\<close>

definition unknown_tool :: "json \<Rightarrow> exn" where
  "unknown_tool name = new_Error [Lit ''Unknown tool: '', Val name]"

text \<open>Lines 178 to 256: \<^verbatim>\<open>tools/call\<close>.\<close>

definition tools_call :: "host \<Rightarrow> network \<Rightarrow> json \<Rightarrow> json \<Rightarrow> json traced" where
  "tools_call h net params i =
     (if nullish params then (Inl (cannot_destructure ''name'' ''params'' params), [])
      else
        let name = own params ''name'';
            args = own params ''arguments''
        in if strict_eq name (JStr ''deploy-vercel'') then deploy_vercel h net args i
           else if strict_eq name (JStr ''deploy-render'') then deploy_render h net args i
           else (Inl (unknown_tool name), []))"

subsection \<open>Requests and responses\<close>

record request =
  req_method :: string
  req_mcp_session_id :: "string option"
  req_body :: json

text \<open>
  A response: the status, the headers set with \<^verbatim>\<open>res.setHeader\<close> in order, and the
  body \<^verbatim>\<open>res.json\<close> sent as a client parses it (none after \<^verbatim>\<open>res.end()\<close>).
\<close>

record response =
  status :: nat
  headers :: "(string \<times> string) list"
  payload :: "json option"

definition cors_headers :: "(string \<times> string) list" where
  "cors_headers =
     [(''Access-Control-Allow-Origin'', ''*''),
      (''Access-Control-Allow-Methods'', ''GET, POST, OPTIONS, DELETE''),
      (''Access-Control-Allow-Headers'', ''Content-Type, Accept, Mcp-Session-Id'')]"

text \<open>Lines 97 to 103: the document of a GET.\<close>

definition discovery_document :: json where
  "discovery_document =
     JObj [(''message'', JStr (rocket @ '' MCP Deployment Server (Streamable HTTP)'')),
           (''transport'', JStr ''Streamable HTTP''),
           (''specification'', JStr ''2024-11-05''),
           (''tools'', JArr [JStr ''deploy-vercel'', JStr ''deploy-render'']),
           (''usage'', JStr (''Add to Claude Code: claude mcp add deployment-orchestrator ''
              @ ''https://your-app.vercel.app/api/mcp''))]"

text \<open>Line 258: what a method that is none of the three throws.\<close>

definition unknown_method :: "json \<Rightarrow> exn" where
  "unknown_method method = new_Error [Lit ''Unknown method: '', Val method]"

text \<open>Lines 121 to 258: the body of the \<^verbatim>\<open>try\<close> from the destructuring of the request body on.\<close>

definition post_try :: "host \<Rightarrow> network \<Rightarrow> json \<Rightarrow> json traced" where
  "post_try h net body =
     (if nullish body then (Inl (cannot_destructure ''method'' ''req.body'' body), [])
      else
        let method = own body ''method'';
            params = own body ''params'';
            i = own body ''id''
        in if strict_eq method (JStr ''initialize'')
           then (Inr (result_envelope initialize_result i), [])
           else if strict_eq method (JStr ''tools/list'')
           then (Inr (result_envelope tools_list_result i), [])
           else if strict_eq method (JStr ''tools/call'') then tools_call h net params i
           else (Inl (unknown_method method), []))"

text \<open>Lines 114 to 119: the headers of a POST; an identifier is minted when none came.\<close>

definition post_headers :: "host \<Rightarrow> string option \<Rightarrow> (string \<times> string) list" where
  "post_headers h sessionId =
     cors_headers @ (if \<not> given sessionId then [(''Mcp-Session-Id'', uuidv4 h)] else [])"

text \<open>
  Lines 85 to 275: the handler. It returns the response and the calls it made to the
  providers, in order. The \<^verbatim>\<open>catch\<close> of lines 260 to 270 turns whatever the
  \<^verbatim>\<open>try\<close> threw into an envelope.
\<close>

definition handler :: "host \<Rightarrow> network \<Rightarrow> request \<Rightarrow> response \<times> http_call list" where
  "handler h net req =
     (if req_method req = ''OPTIONS''
      then (\<lparr>status = 200, headers = cors_headers, payload = None\<rparr>, [])
      else if req_method req = ''GET''
      then (\<lparr>status = 200, headers = cors_headers, payload = Some (wire discovery_document)\<rparr>, [])
      else if req_method req = ''DELETE''
      then (\<lparr>status = 200, headers = cors_headers, payload = None\<rparr>, [])
      else if req_method req = ''POST''
      then
        (case post_try h net (req_body req) of
           (Inr envelope, cs) \<Rightarrow>
             (\<lparr>status = 200, headers = post_headers h (req_mcp_session_id req),
               payload = Some (wire envelope)\<rparr>, cs)
         | (Inl error, cs) \<Rightarrow>
             (\<lparr>status = 200, headers = post_headers h (req_mcp_session_id req),
               payload = Some (wire (error_envelope (message error)
                  (js_or (opt (req_body req) ''id'') JNull)))\<rparr>, cs))
      else (\<lparr>status = 405, headers = cors_headers,
              payload = Some (wire (JObj [(''error'', JStr ''Method not allowed'')]))\<rparr>, []))"

section \<open>Reading a request and a response\<close>

text \<open>The fields of a request body as lines 121 and 179 destructure them.\<close>

definition rpc_method :: "request \<Rightarrow> json" where
  "rpc_method req = own (req_body req) ''method''"

definition rpc_params :: "request \<Rightarrow> json" where
  "rpc_params req = own (req_body req) ''params''"

definition rpc_id :: "request \<Rightarrow> json" where
  "rpc_id req = own (req_body req) ''id''"

definition tool_name :: "request \<Rightarrow> json" where
  "tool_name req = own (rpc_params req) ''name''"

definition tool_arguments :: "request \<Rightarrow> json" where
  "tool_arguments req = own (rpc_params req) ''arguments''"

text \<open>The tool names that a reply to \<^verbatim>\<open>tools/list\<close> carries: \<^verbatim>\<open>result.tools[*].name\<close>.\<close>

definition listed_tool_names :: "json \<Rightarrow> json list" where
  "listed_tool_names reply =
     (case own (own reply ''result'') ''tools'' of
        JArr ts \<Rightarrow> map (\<lambda>t. own t ''name'') ts
      | _ \<Rightarrow> [])"

text \<open>A value that a template literal can print.\<close>

definition printable :: "json \<Rightarrow> bool" where
  "printable v = (case to_string v of Inl e \<Rightarrow> False | Inr s \<Rightarrow> True)"

text \<open>
  The names registered with \<^verbatim>\<open>server.tool\<close> in the SDK-based server
  (\<^verbatim>\<open>src/unnamed/part_000\<close>, lines 543, 590, 642 and 719).
\<close>

definition server_tool_names :: "string list" where
  "server_tool_names =
     [''deploy-vercel'', ''deploy-render'', ''check-deployment-status'', ''list-services'']"

section \<open>Sample inputs\<close>

definition post_request :: "string option \<Rightarrow> json \<Rightarrow> request" where
  "post_request sessionId body =
     \<lparr>req_method = ''POST'', req_mcp_session_id = sessionId, req_body = body\<rparr>"

definition rpc_request :: "string \<Rightarrow> json \<Rightarrow> json \<Rightarrow> json" where
  "rpc_request m params i =
     JObj [(''jsonrpc'', JStr ''2.0''), (''method'', JStr m), (''params'', params), (''id'', i)]"

definition tool_request :: "string \<Rightarrow> json \<Rightarrow> json \<Rightarrow> json" where
  "tool_request name args i =
     rpc_request ''tools/call'' (JObj [(''name'', JStr name), (''arguments'', args)]) i"

text \<open>A process with no token, one with both, and a second one that differs in its next UUID.\<close>

definition bare_host :: host where
  "bare_host =
     \<lparr>VERCEL_TOKEN = None, RENDER_TOKEN = None,
      uuidv4 = ''3f2b8c1e-5d4a-4e6f-9a7b-0c1d2e3f4a5b'',
      toLocaleString = (\<lambda>v. ''Invalid Date'')\<rparr>"

definition ready_host :: host where
  "ready_host = bare_host\<lparr>VERCEL_TOKEN := Some ''vtok'', RENDER_TOKEN := Some ''rtok''\<rparr>"

definition other_host :: host where
  "other_host = bare_host\<lparr>uuidv4 := ''9b1deb4d-3b7d-4bad-9bdd-2b0d7b3dcb6d''\<rparr>"

text \<open>A network on which every call fails, and one where Render lists two services.\<close>

definition down :: network where
  "down call = Rejected JUndefined ''Network Error''"

definition two_services :: json where
  "two_services =
     JArr [JObj [(''id'', JStr ''srv-1''), (''name'', JStr ''api'')],
           JObj [(''id'', JStr ''srv-2''), (''name'', JStr ''web'')]]"

fun render_up :: network where
  "render_up (AxiosGet url hs) = Resolved two_services"
| "render_up (AxiosPost url b hs) =
     Resolved (JObj [(''id'', JStr ''dep-7''), (''status'', JStr ''created'')])"

section \<open>Facts about the values and the envelopes\<close>

lemmas sample_defs =
  post_request_def rpc_request_def tool_request_def bare_host_def ready_host_def other_host_def
  down_def two_services_def rpc_method_def rpc_params_def rpc_id_def tool_name_def
  tool_arguments_def

lemmas handler_defs =
  handler_def post_try_def tools_call_def deploy_vercel_def deploy_render_def
  actualServiceId_of_def createDeployment_def triggerDeployment_def getServices_def
  post_headers_def error_envelope_def result_envelope_def opt_def js_or_def
  unknown_tool_def unknown_method_def new_Error_def gitSource_of_def

lemma strict_eq_JStr [simp]: "strict_eq v (JStr s) = (v = JStr s)"
  by (cases v) auto

lemma strict_eq_JUndefined [simp]: "strict_eq JUndefined v = (v = JUndefined)"
  by (cases v) auto

lemma own_defined_object: "own v k \<noteq> JUndefined \<Longrightarrow> \<exists>kvs. v = JObj kvs"
  by (cases v) simp_all

lemma js_or_JNull_defined: "js_or a JNull \<noteq> JUndefined"
  by (cases a) (simp_all add: js_or_def)

lemma wire_defined: "v \<noteq> JUndefined \<Longrightarrow> wire v \<noteq> JUndefined"
  by (cases v) simp_all

lemma wire_result_envelope:
  "wire (result_envelope (JObj r) i) =
     JObj ([(''jsonrpc'', JStr ''2.0''), (''result'', wire (JObj r))]
           @ (if i = JUndefined then [] else [(''id'', wire i)]))"
  by (simp add: result_envelope_def)

lemma wire_error_envelope:
  "i \<noteq> JUndefined \<Longrightarrow> wire (error_envelope m i) = error_envelope m (wire i)"
  by (simp add: error_envelope_def)

lemma result_not_error:
  "wire (result_envelope (JObj r) i) \<noteq> error_envelope m j"
  by (simp add: result_envelope_def error_envelope_def)

lemma error_envelope_inject [simp]:
  "error_envelope m i = error_envelope m' i' \<longleftrightarrow> m = m' \<and> i = i'"
  by (auto simp: error_envelope_def)

section \<open>What a conversion can throw\<close>

text \<open>
  A conversion to a string throws one thing only. An error made from a template that
  begins with fixed text either has that text at its head or is that TypeError.
\<close>

lemma to_string_throws:
  "to_string v = Inl e \<longrightarrow> e = not_primitive"
  "to_strings vs = Inl e \<longrightarrow> e = not_primitive"
  by (induction v and vs rule: to_string_to_strings.induct)
     (auto split: sum.splits if_splits)

lemma to_string_Inl: "to_string v = Inl e \<Longrightarrow> e = not_primitive"
  by (simp add: to_string_throws)

lemma template_Inl: "template ps = Inl e \<Longrightarrow> e = not_primitive"
  by (induction ps rule: template.induct) (auto split: sum.splits dest: to_string_Inl)

lemma to_primitive_Inl: "to_primitive v = Inl e \<Longrightarrow> e = not_primitive"
  by (cases v) (auto simp: to_primitive_def simp del: to_string.simps
      split: sum.splits dest: to_string_Inl)

lemma new_Error_Lit:
  "new_Error (Lit s # ps) = not_primitive \<or> (\<exists>t. new_Error (Lit s # ps) = Error (s @ t))"
  by (auto simp: new_Error_def split: sum.splits dest: template_Inl)

lemma new_Error_hd:
  "s \<noteq> [] \<Longrightarrow> hd s \<noteq> CHR ''U'' \<Longrightarrow> hd (message (new_Error (Lit s # ps))) \<noteq> CHR ''U''"
  using new_Error_Lit [of s ps] by (auto simp: not_primitive_def)

section \<open>What the \<^verbatim>\<open>try\<close> block returns and throws\<close>

text \<open>Whatever a branch passes to \<^verbatim>\<open>res.json\<close> is a result envelope with the request's id.\<close>

lemma deploy_vercel_Inr:
  "deploy_vercel h net args i = (Inr env, cs) \<Longrightarrow> \<exists>r. env = result_envelope (JObj r) i"
  by (auto simp: deploy_vercel_def Let_def text_content_def split: if_splits prod.splits sum.splits)

lemma deploy_render_Inr:
  "deploy_render h net args i = (Inr env, cs) \<Longrightarrow> \<exists>r. env = result_envelope (JObj r) i"
  by (auto simp: deploy_render_def Let_def text_content_def split: if_splits prod.splits sum.splits)

lemma tools_call_Inr:
  "tools_call h net params i = (Inr env, cs) \<Longrightarrow> \<exists>r. env = result_envelope (JObj r) i"
  by (auto simp: tools_call_def Let_def split: if_splits dest: deploy_vercel_Inr deploy_render_Inr)

lemma post_try_Inr:
  "post_try h net body = (Inr env, cs) \<Longrightarrow> \<exists>r. env = result_envelope (JObj r) (own body ''id'')"
  by (auto simp: post_try_def Let_def initialize_result_def tools_list_result_def
      split: if_splits dest: tools_call_Inr)

text \<open>No failure of a tool begins like the rejection of an unknown tool.\<close>

lemma createDeployment_Inl:
  "createDeployment token net p g = (Inl e, cs) \<Longrightarrow> hd (message e) \<noteq> CHR ''U''"
  by (auto simp: createDeployment_def new_Error_hd split: axios_outcome.splits)

lemma triggerDeployment_Inl:
  "triggerDeployment token net v = (Inl e, cs) \<Longrightarrow> hd (message e) \<noteq> CHR ''U''"
  by (auto simp: triggerDeployment_def new_Error_hd split: axios_outcome.splits sum.splits)

lemma vercel_text_Inl: "vercel_text d = Inl e \<Longrightarrow> e = not_primitive"
  unfolding vercel_text_def by (rule template_Inl)

lemma deploy_vercel_Inl:
  "deploy_vercel h net args i = (Inl e, cs) \<Longrightarrow> hd (message e) \<noteq> CHR ''U''"
  by (auto simp: deploy_vercel_def cannot_destructure_def cannot_read_def not_primitive_def
      dest: createDeployment_Inl vercel_text_Inl
      split: if_splits prod.splits sum.splits)

lemma js_find_Inl: "js_find ss n = Inl e \<Longrightarrow> hd (message e) \<noteq> CHR ''U''"
  by (induction ss) (auto simp: cannot_read_def split: if_splits)

lemma actualServiceId_of_Inl:
  "actualServiceId_of token net n = (Inl e, cs) \<Longrightarrow> hd (message e) \<noteq> CHR ''U''"
  by (auto simp: actualServiceId_of_def getServices_def cannot_read_def dquote_def new_Error_hd
      dest: js_find_Inl
      split: if_splits prod.splits sum.splits axios_outcome.splits json.splits)

lemma render_text_Inl: "render_text h d a = Inl e \<Longrightarrow> e = not_primitive"
  unfolding render_text_def
  by (auto split: sum.splits dest: template_Inl to_primitive_Inl simp del: template.simps)

lemma deploy_render_Inl:
  "deploy_render h net args i = (Inl e, cs) \<Longrightarrow> hd (message e) \<noteq> CHR ''U''"
  by (auto simp: deploy_render_def Let_def cannot_destructure_def cannot_read_def not_primitive_def
      dest: actualServiceId_of_Inl triggerDeployment_Inl render_text_Inl
      split: if_splits prod.splits sum.splits)

text \<open>On a list of services none of which is null, \<^verbatim>\<open>find\<close> is the first exact match.\<close>

lemma js_find_find:
  "list_all (\<lambda>s. \<not> nullish s) ss \<Longrightarrow>
   js_find ss n = Inr (case find (\<lambda>s. strict_eq (own s ''name'') n) ss of
                         None \<Rightarrow> JUndefined | Some s \<Rightarrow> s)"
  by (induction ss) simp_all

lemma named_truthy:
  "strict_eq (own s ''name'') n \<Longrightarrow> truthy n \<Longrightarrow> truthy s"
  by (cases s) auto

section \<open>The handler on a POST\<close>

lemma handler_POST:
  "req_method req = ''POST'' \<Longrightarrow> handler h net req =
     (case post_try h net (req_body req) of
           (Inr envelope, cs) \<Rightarrow>
             (\<lparr>status = 200, headers = post_headers h (req_mcp_session_id req),
               payload = Some (wire envelope)\<rparr>, cs)
         | (Inl error, cs) \<Rightarrow>
             (\<lparr>status = 200, headers = post_headers h (req_mcp_session_id req),
               payload = Some (error_envelope (message error)
                  (wire (js_or (opt (req_body req) ''id'') JNull)))\<rparr>, cs))"
  by (simp add: handler_def wire_error_envelope js_or_JNull_defined split: prod.splits sum.splits)

lemma POST_tools_call:
  assumes "req_method req = ''POST''" and "rpc_method req = JStr ''tools/call''"
  shows "handler h net req =
     (case tools_call h net (rpc_params req) (rpc_id req) of
           (Inr envelope, cs) \<Rightarrow>
             (\<lparr>status = 200, headers = post_headers h (req_mcp_session_id req),
               payload = Some (wire envelope)\<rparr>, cs)
         | (Inl error, cs) \<Rightarrow>
             (\<lparr>status = 200, headers = post_headers h (req_mcp_session_id req),
               payload = Some (error_envelope (message error)
                  (wire (js_or (rpc_id req) JNull)))\<rparr>, cs))"
proof -
  from assms(2) obtain kvs where "req_body req = JObj kvs"
    using own_defined_object [of "req_body req" "''method''"] by (auto simp: rpc_method_def)
  with assms show ?thesis
    by (simp add: handler_POST post_try_def rpc_method_def rpc_params_def rpc_id_def opt_def
        split: prod.splits sum.splits)
qed

lemma POST_tools_list:
  assumes "req_method req = ''POST''" and "rpc_method req = JStr ''tools/list''"
  shows "payload (fst (handler h net req)) = Some (wire (result_envelope tools_list_result (rpc_id req)))"
proof -
  from assms(2) obtain kvs where "req_body req = JObj kvs"
    using own_defined_object [of "req_body req" "''method''"] by (auto simp: rpc_method_def)
  with assms show ?thesis
    by (simp add: handler_POST post_try_def rpc_method_def rpc_id_def del: wire.simps)
qed

lemma listed_tool_names_reply:
  "listed_tool_names (wire (result_envelope tools_list_result i))
     = [JStr ''deploy-vercel'', JStr ''deploy-render'']"
  by (simp add: listed_tool_names_def result_envelope_def tools_list_result_def)

lemma tool_name_params:
  "tool_name req = JStr n \<Longrightarrow> \<not> nullish (rpc_params req)"
  by (cases "rpc_params req") (simp_all add: tool_name_def)

section \<open>The dispatch of a tool call\<close>

lemma unknown_tool_listed:
  "message (unknown_tool (JStr n)) = ''Unknown tool: '' @ n"
  by (simp add: unknown_tool_def new_Error_def)

lemma dispatched_reply:
  assumes "req_method req = ''POST''" and "rpc_method req = JStr ''tools/call''"
    and "tools_call h net (rpc_params req) (rpc_id req) = out"
    and "\<And>e cs. out = (Inl e, cs) \<Longrightarrow> hd (message e) \<noteq> CHR ''U''"
    and "\<And>env cs. out = (Inr env, cs) \<Longrightarrow> \<exists>r. env = result_envelope (JObj r) (rpc_id req)"
  shows "payload (fst (handler h net req)) \<noteq> Some (error_envelope (''Unknown tool: '' @ x) j)"
proof (cases out)
  case (Pair res cs)
  show ?thesis
  proof (cases res)
    case (Inl e)
    with Pair assms(3,4) have "message e \<noteq> ''Unknown tool: '' @ x"
      by auto
    with Pair Inl assms(3) show ?thesis
      by (simp add: POST_tools_call [OF assms(1,2)])
  next
    case (Inr env)
    with Pair assms(5) obtain r where "env = result_envelope (JObj r) (rpc_id req)"
      by blast
    with Pair Inr assms(3) show ?thesis
      by (simp add: POST_tools_call [OF assms(1,2)] result_not_error del: wire.simps)
  qed
qed

lemma actualServiceId_of_calls: "snd (actualServiceId_of tok net n) = [getServices_call tok]"
  by (simp add: actualServiceId_of_def getServices_def
      split: prod.splits sum.splits axios_outcome.splits json.splits)

lemma triggerDeployment_calls:
  "to_string v = Inr sid \<Longrightarrow> snd (triggerDeployment tok net v) = [triggerDeployment_call tok sid]"
  by (simp add: triggerDeployment_def)

lemma deploy_render_calls:
  assumes "to_string (own args ''serviceId'') = Inr sid"
    and "given (RENDER_TOKEN h)" and "\<not> nullish args"
  shows "snd (deploy_render h net args i) \<noteq> []"
proof (cases "\<not> truthy (own args ''serviceId'') \<and> truthy (own args ''serviceName'')")
  case True
  obtain res cs where r: "actualServiceId_of (the (RENDER_TOKEN h)) net (own args ''serviceName'')
      = (res, cs)"
    by (cases "actualServiceId_of (the (RENDER_TOKEN h)) net (own args ''serviceName'')")
  then have "cs = [getServices_call (the (RENDER_TOKEN h))]"
    using actualServiceId_of_calls [of "the (RENDER_TOKEN h)" net "own args ''serviceName''"]
    by simp
  with True r assms(2,3) show ?thesis
    by (simp add: deploy_render_def split: prod.splits sum.splits)
next
  case False
  obtain res cs where r: "triggerDeployment (the (RENDER_TOKEN h)) net (own args ''serviceId'')
      = (res, cs)"
    by (cases "triggerDeployment (the (RENDER_TOKEN h)) net (own args ''serviceId'')")
  then have "cs = [triggerDeployment_call (the (RENDER_TOKEN h)) sid]"
    using triggerDeployment_calls [OF assms(1), of "the (RENDER_TOKEN h)" net] by simp
  with False r assms(2,3) show ?thesis
    by (auto simp add: deploy_render_def Let_def split: prod.splits sum.splits)
qed

lemma vercel_dispatch:
  assumes "req_method req = ''POST''" and "rpc_method req = JStr ''tools/call''"
    and "tool_name req = JStr ''deploy-vercel''"
  shows "payload (fst (handler h net req)) \<noteq> Some (error_envelope (''Unknown tool: '' @ x) j)"
    and "VERCEL_TOKEN h = Some tok \<Longrightarrow> tok \<noteq> [] \<Longrightarrow> \<not> nullish (tool_arguments req) \<Longrightarrow>
         snd (handler h net req) =
           [createDeployment_call tok (own (tool_arguments req) ''projectName'')
              (gitSource_of (tool_arguments req))]"
proof -
  have call: "tools_call h net (rpc_params req) (rpc_id req) =
      deploy_vercel h net (tool_arguments req) (rpc_id req)"
    using assms(3) tool_name_params [of req]
    by (simp add: tools_call_def tool_name_def tool_arguments_def)
  then show "payload (fst (handler h net req)) \<noteq> Some (error_envelope (''Unknown tool: '' @ x) j)"
    by (rule dispatched_reply [OF assms(1,2)]) (auto dest: deploy_vercel_Inl deploy_vercel_Inr)
  assume "VERCEL_TOKEN h = Some tok" "tok \<noteq> []" "\<not> nullish (tool_arguments req)"
  then show "snd (handler h net req) =
           [createDeployment_call tok (own (tool_arguments req) ''projectName'')
              (gitSource_of (tool_arguments req))]"
    by (simp add: POST_tools_call [OF assms(1,2)] call deploy_vercel_def createDeployment_def
        split: prod.splits sum.splits axios_outcome.splits)
qed

lemma render_dispatch:
  assumes "req_method req = ''POST''" and "rpc_method req = JStr ''tools/call''"
    and "tool_name req = JStr ''deploy-render''"
  shows "payload (fst (handler h net req)) \<noteq> Some (error_envelope (''Unknown tool: '' @ x) j)"
    and "RENDER_TOKEN h = Some tok \<Longrightarrow> tok \<noteq> [] \<Longrightarrow>
         truthy (own (tool_arguments req) ''serviceId'') \<Longrightarrow>
         to_string (own (tool_arguments req) ''serviceId'') = Inr sid \<Longrightarrow>
         snd (handler h net req) = [triggerDeployment_call tok sid]"
    and "given (RENDER_TOKEN h) \<Longrightarrow> \<not> nullish (tool_arguments req) \<Longrightarrow>
         printable (own (tool_arguments req) ''serviceId'') \<Longrightarrow>
         snd (handler h net req) \<noteq> []"
proof -
  have call: "tools_call h net (rpc_params req) (rpc_id req) =
      deploy_render h net (tool_arguments req) (rpc_id req)"
    using assms(3) tool_name_params [of req]
    by (simp add: tools_call_def tool_name_def tool_arguments_def)
  then show "payload (fst (handler h net req)) \<noteq> Some (error_envelope (''Unknown tool: '' @ x) j)"
    by (rule dispatched_reply [OF assms(1,2)]) (auto dest: deploy_render_Inl deploy_render_Inr)
  show "snd (handler h net req) = [triggerDeployment_call tok sid]"
    if "RENDER_TOKEN h = Some tok" "tok \<noteq> []" "truthy (own (tool_arguments req) ''serviceId'')"
      "to_string (own (tool_arguments req) ''serviceId'') = Inr sid"
  proof -
    from that(3) have "\<not> nullish (tool_arguments req)"
      by (cases "tool_arguments req") auto
    with that show ?thesis
      by (simp add: POST_tools_call [OF assms(1,2)] call deploy_render_def triggerDeployment_def
          split: prod.splits sum.splits axios_outcome.splits)
  qed
  show "snd (handler h net req) \<noteq> []"
    if "given (RENDER_TOKEN h)" "\<not> nullish (tool_arguments req)"
      "printable (own (tool_arguments req) ''serviceId'')"
  proof -
    from that(3) obtain sid where "to_string (own (tool_arguments req) ''serviceId'') = Inr sid"
      by (auto simp: printable_def split: sum.splits)
    then have "snd (deploy_render h net (tool_arguments req) (rpc_id req)) \<noteq> []"
      using that(1,2) by (rule deploy_render_calls)
    then show ?thesis
      by (auto simp add: POST_tools_call [OF assms(1,2)] call split: prod.splits sum.splits)
  qed
qed

lemma other_tool:
  assumes "req_method req = ''POST''" and "rpc_method req = JStr ''tools/call''"
    and "\<not> nullish (rpc_params req)"
    and "tool_name req \<noteq> JStr ''deploy-vercel''" and "tool_name req \<noteq> JStr ''deploy-render''"
  shows "handler h net req =
           (\<lparr>status = 200, headers = post_headers h (req_mcp_session_id req),
             payload = Some (error_envelope (message (unknown_tool (tool_name req)))
                               (wire (js_or (rpc_id req) JNull)))\<rparr>, [])"
  using assms(3-5) by (simp add: POST_tools_call [OF assms(1,2)] tools_call_def tool_name_def)

section \<open>The claims\<close>

subsection \<open>C1: one of result and error, and the id of the request\<close>

text \<open>
  C1. Every reply to a POST carries exactly one of \<^verbatim>\<open>result\<close> and \<^verbatim>\<open>error\<close>, and
  its \<^verbatim>\<open>id\<close> is the id of the request (null when the body could not be parsed).
  The first half holds (see C2). The second fails in the \<^verbatim>\<open>catch\<close> of line 268,
  \<^verbatim>\<open>req.body?.id || null\<close>: a request with the id 0 whose tool call fails is answered
  with the id null, while \<^verbatim>\<open>initialize\<close> with the same id is answered with the id 0.
\<close>

theorem error_reply_drops_id_zero:
  "payload (fst (handler bare_host down (post_request None
      (tool_request ''deploy-vercel'' (JObj [(''projectName'', JStr ''demo'')]) (JNum ''0'')))))
     = Some (error_envelope ''VERCEL_TOKEN environment variable is required'' JNull)
   \<and> payload (fst (handler bare_host down (post_request None
      (rpc_request ''initialize'' (JObj []) (JNum ''0'')))))
     = Some (JObj [(''jsonrpc'', JStr ''2.0''), (''result'', initialize_result),
                   (''id'', JNum ''0'')])"
  by (simp add: sample_defs handler_defs initialize_result_def)

subsection \<open>C2: every failure becomes an error envelope\<close>

text \<open>
  C2. Whatever the handler throws while it processes a POST (a provider's failure, a
  missing argument object, an unknown tool or method, a missing token) is caught and
  answered with status 200 and an envelope whose \<^verbatim>\<open>error\<close> is
  \<^verbatim>\<open>{code, message}\<close>, the message being the exception's. Every POST is answered with
  status 200 and an envelope that carries \<^verbatim>\<open>jsonrpc: "2.0"\<close> and exactly one of
  \<^verbatim>\<open>result\<close> and \<^verbatim>\<open>error\<close>, the error exactly when something was thrown. A body
  that is not an object (undefined when nothing could be parsed) is answered with an error
  envelope whose id is null.
\<close>

theorem post_failures_become_error_envelopes:
  assumes "req_method req = ''POST''"
  shows "\<exists>p. fst (handler h net req) =
           \<lparr>status = 200, headers = post_headers h (req_mcp_session_id req), payload = Some p\<rparr>
         \<and> own p ''jsonrpc'' = JStr ''2.0''
         \<and> has_key p ''result'' \<noteq> has_key p ''error''
         \<and> has_key p ''error'' = (\<exists>e. fst (post_try h net (req_body req)) = Inl e)
         \<and> (\<forall>e. fst (post_try h net (req_body req)) = Inl e \<longrightarrow>
               own p ''error'' = JObj [(''code'', JNum ''-32000''), (''message'', JStr (message e))])
         \<and> ((\<forall>kvs. req_body req \<noteq> JObj kvs) \<longrightarrow> has_key p ''error'' \<and> own p ''id'' = JNull)"
proof (cases "post_try h net (req_body req)")
  case (Pair out cs)
  show ?thesis
  proof (cases out)
    case (Inl e)
    have "(\<forall>kvs. req_body req \<noteq> JObj kvs) \<Longrightarrow> opt (req_body req) ''id'' = JUndefined"
      by (cases "req_body req") (simp_all add: opt_def)
    with Inl Pair assms show ?thesis
      by (auto simp add: handler_POST error_envelope_def js_or_def)
  next
    case (Inr env)
    with Pair obtain r where env: "env = result_envelope (JObj r) (own (req_body req) ''id'')"
      using post_try_Inr by blast
    have "\<exists>kvs. req_body req = JObj kvs"
    proof (rule ccontr)
      assume "\<not> ?thesis"
      then have "own (req_body req) ''method'' = JUndefined"
        by (cases "req_body req") simp_all
      with Pair Inr show False
        by (simp add: post_try_def Let_def split: if_splits)
    qed
    with Pair Inr env assms show ?thesis
      by (auto simp add: handler_POST wire_result_envelope simp del: wire.simps)
  qed
qed

text \<open>A POST without a body, on a process with no token and a network that is down.\<close>

theorem post_failures_become_error_envelopes_witness:
  "req_method (post_request None JUndefined) = ''POST''
   \<and> fst (handler bare_host down (post_request None JUndefined))
     = \<lparr>status = 200, headers = post_headers bare_host None,
         payload = Some (error_envelope
           (message (cannot_destructure ''method'' ''req.body'' JUndefined)) JNull)\<rparr>"
  using post_failures_become_error_envelopes [of "post_request None JUndefined" bare_host down]
  by (simp add: sample_defs handler_defs)

subsection \<open>C3: deploying to Render by service name\<close>

text \<open>
  C3. A \<^verbatim>\<open>deploy-render\<close> call with a service name and no service identifier, on a
  process with a Render token. The name is a value that a template can print, and the
  listing answers with an array of services, none of them null, whose identifiers can be
  printed. When a service of exactly that name is listed, the calls to the provider are
  the listing followed by one trigger, for the identifier of the first such service; when
  none is, the only call is the listing, and the reply is the error
  \<^verbatim>\<open>Service "<name>" not found\<close>.
\<close>

theorem deploy_render_by_name_calls:
  assumes "req_method req = ''POST''" and "rpc_method req = JStr ''tools/call''"
    and "tool_name req = JStr ''deploy-render''"
    and "RENDER_TOKEN h = Some token" and "token \<noteq> []"
    and "\<not> truthy (own (tool_arguments req) ''serviceId'')"
    and "own (tool_arguments req) ''serviceName'' = serviceName" and "truthy serviceName"
    and "to_string serviceName = Inr shown"
    and "net (getServices_call token) = Resolved (JArr services)"
    and "list_all (\<lambda>s. \<not> nullish s \<and> printable (own s ''id'')) services"
  shows "case find (\<lambda>s. strict_eq (own s ''name'') serviceName) services of
           Some service \<Rightarrow>
             (\<exists>sid. to_string (own service ''id'') = Inr sid \<and>
                snd (handler h net req) =
                  [getServices_call token, triggerDeployment_call token sid])
         | None \<Rightarrow>
             handler h net req =
               (\<lparr>status = 200, headers = post_headers h (req_mcp_session_id req),
                 payload = Some (error_envelope
                   (''Service '' @ dquote @ shown @ dquote @ '' not found'')
                   (wire (js_or (rpc_id req) JNull)))\<rparr>,
                [getServices_call token])"
proof -
  have args: "\<not> nullish (tool_arguments req)"
    using assms(7,8) by (cases "tool_arguments req") auto
  have call: "tools_call h net (rpc_params req) (rpc_id req)
      = deploy_render h net (tool_arguments req) (rpc_id req)"
    using assms(3) tool_name_params [of req]
    by (simp add: tools_call_def tool_name_def tool_arguments_def)
  have present: "list_all (\<lambda>s. \<not> nullish s) services"
    using assms(11) by (simp add: list_all_iff)
  show ?thesis
  proof (cases "find (\<lambda>s. strict_eq (own s ''name'') serviceName) services")
    case None
    then have "actualServiceId_of token net serviceName =
        (Inl (Error (''Service '' @ dquote @ shown @ dquote @ '' not found'')),
         [getServices_call token])"
      using assms(9,10) present
      by (simp add: actualServiceId_of_def getServices_def js_find_find new_Error_def)
    with None args assms show ?thesis
      by (simp add: POST_tools_call call deploy_render_def)
  next
    case (Some service)
    then have match: "strict_eq (own service ''name'') serviceName" and "service \<in> set services"
      by (auto simp: find_Some_iff)
    then have "printable (own service ''id'')"
      using assms(11) by (simp add: list_all_iff)
    then obtain sid where sid: "to_string (own service ''id'') = Inr sid"
      by (auto simp: printable_def split: sum.splits)
    from match have "truthy service"
      using assms(8) by (rule named_truthy)
    with Some have "actualServiceId_of token net serviceName =
        (Inr (own service ''id''), [getServices_call token])"
      using assms(10) present by (simp add: actualServiceId_of_def getServices_def js_find_find)
    with Some args assms sid show ?thesis
      by (simp add: POST_tools_call call deploy_render_def triggerDeployment_def
          split: axios_outcome.splits sum.splits prod.splits)
  qed
qed

text \<open>
  Render lists the services \<^verbatim>\<open>api\<close> and \<^verbatim>\<open>web\<close>: deploying \<^verbatim>\<open>web\<close> lists and
  triggers \<^verbatim>\<open>srv-2\<close>, deploying \<^verbatim>\<open>blog\<close> lists and fails.
\<close>

theorem deploy_render_by_name_calls_witness:
  "snd (handler ready_host render_up (post_request None
      (tool_request ''deploy-render'' (JObj [(''serviceName'', JStr ''web'')]) (JNum ''7''))))
     = [getServices_call ''rtok'', triggerDeployment_call ''rtok'' ''srv-2'']
   \<and> snd (handler ready_host render_up (post_request None
      (tool_request ''deploy-render'' (JObj [(''serviceName'', JStr ''blog'')]) (JNum ''8''))))
     = [getServices_call ''rtok'']
   \<and> payload (fst (handler ready_host render_up (post_request None
      (tool_request ''deploy-render'' (JObj [(''serviceName'', JStr ''blog'')]) (JNum ''8'')))))
     = Some (error_envelope (''Service '' @ dquote @ ''blog'' @ dquote @ '' not found'')
               (JNum ''8''))"
proof -
  let ?req = "\<lambda>n i. post_request None
      (tool_request ''deploy-render'' (JObj [(''serviceName'', JStr n)]) (JNum i))"
  let ?ss = "[JObj [(''id'', JStr ''srv-1''), (''name'', JStr ''api'')],
              JObj [(''id'', JStr ''srv-2''), (''name'', JStr ''web'')]]"
  have web: "case find (\<lambda>s. strict_eq (own s ''name'') (JStr ''web'')) ?ss of
           Some service \<Rightarrow>
             (\<exists>sid. to_string (own service ''id'') = Inr sid \<and>
                snd (handler ready_host render_up (?req ''web'' ''7'')) =
                  [getServices_call ''rtok'', triggerDeployment_call ''rtok'' sid])
         | None \<Rightarrow>
             handler ready_host render_up (?req ''web'' ''7'') =
               (\<lparr>status = 200,
                 headers = post_headers ready_host (req_mcp_session_id (?req ''web'' ''7'')),
                 payload = Some (error_envelope
                   (''Service '' @ dquote @ ''web'' @ dquote @ '' not found'')
                   (wire (js_or (rpc_id (?req ''web'' ''7'')) JNull)))\<rparr>,
                [getServices_call ''rtok''])"
    by (rule deploy_render_by_name_calls [where token = "''rtok''"])
       (simp_all add: sample_defs getServices_call_def printable_def)
  have blog: "case find (\<lambda>s. strict_eq (own s ''name'') (JStr ''blog'')) ?ss of
           Some service \<Rightarrow>
             (\<exists>sid. to_string (own service ''id'') = Inr sid \<and>
                snd (handler ready_host render_up (?req ''blog'' ''8'')) =
                  [getServices_call ''rtok'', triggerDeployment_call ''rtok'' sid])
         | None \<Rightarrow>
             handler ready_host render_up (?req ''blog'' ''8'') =
               (\<lparr>status = 200,
                 headers = post_headers ready_host (req_mcp_session_id (?req ''blog'' ''8'')),
                 payload = Some (error_envelope
                   (''Service '' @ dquote @ ''blog'' @ dquote @ '' not found'')
                   (wire (js_or (rpc_id (?req ''blog'' ''8'')) JNull)))\<rparr>,
                [getServices_call ''rtok''])"
    by (rule deploy_render_by_name_calls [where token = "''rtok''"])
       (simp_all add: sample_defs getServices_call_def printable_def)
  from web blog show ?thesis
    by (simp add: sample_defs js_or_def)
qed

subsection \<open>C4: a missing token\<close>

text \<open>
  C4. A call of either tool of the dispatcher while the platform's token is unset (or
  empty) makes no call to a provider; when the call carries an arguments object, the
  reply is the error \<^verbatim>\<open>VERCEL_TOKEN environment variable is required\<close>, respectively
  \<^verbatim>\<open>RENDER_TOKEN environment variable is required\<close>.
\<close>

theorem missing_token_no_provider_call:
  assumes "req_method req = ''POST''" and "rpc_method req = JStr ''tools/call''"
  shows "(tool_name req = JStr ''deploy-vercel'' \<and> \<not> given (VERCEL_TOKEN h) \<longrightarrow>
            snd (handler h net req) = [] \<and>
            (\<not> nullish (tool_arguments req) \<longrightarrow>
               payload (fst (handler h net req)) =
                 Some (error_envelope ''VERCEL_TOKEN environment variable is required''
                         (wire (js_or (rpc_id req) JNull)))))
       \<and> (tool_name req = JStr ''deploy-render'' \<and> \<not> given (RENDER_TOKEN h) \<longrightarrow>
            snd (handler h net req) = [] \<and>
            (\<not> nullish (tool_arguments req) \<longrightarrow>
               payload (fst (handler h net req)) =
                 Some (error_envelope ''RENDER_TOKEN environment variable is required''
                         (wire (js_or (rpc_id req) JNull)))))"
proof (intro conjI impI)
  assume a: "tool_name req = JStr ''deploy-vercel'' \<and> \<not> given (VERCEL_TOKEN h)"
  then have v: "tools_call h net (rpc_params req) (rpc_id req)
      = deploy_vercel h net (tool_arguments req) (rpc_id req)"
    using tool_name_params [of req] by (simp add: tools_call_def tool_name_def tool_arguments_def)
  from a show "snd (handler h net req) = []"
    by (simp add: POST_tools_call [OF assms] v deploy_vercel_def Let_def)
  assume "\<not> nullish (tool_arguments req)"
  with a show "payload (fst (handler h net req)) =
      Some (error_envelope ''VERCEL_TOKEN environment variable is required''
              (wire (js_or (rpc_id req) JNull)))"
    by (simp add: POST_tools_call [OF assms] v deploy_vercel_def Let_def)
next
  assume a: "tool_name req = JStr ''deploy-render'' \<and> \<not> given (RENDER_TOKEN h)"
  then have v: "tools_call h net (rpc_params req) (rpc_id req)
      = deploy_render h net (tool_arguments req) (rpc_id req)"
    using tool_name_params [of req] by (simp add: tools_call_def tool_name_def tool_arguments_def)
  from a show "snd (handler h net req) = []"
    by (simp add: POST_tools_call [OF assms] v deploy_render_def Let_def)
  assume "\<not> nullish (tool_arguments req)"
  with a show "payload (fst (handler h net req)) =
      Some (error_envelope ''RENDER_TOKEN environment variable is required''
              (wire (js_or (rpc_id req) JNull)))"
    by (simp add: POST_tools_call [OF assms] v deploy_render_def Let_def)
qed

text \<open>A Vercel deployment asked of a process with no token, on a network that would answer.\<close>

theorem missing_token_no_provider_call_witness:
  "req_method (post_request None (tool_request ''deploy-vercel''
       (JObj [(''projectName'', JStr ''demo'')]) (JNum ''2''))) = ''POST''
   \<and> rpc_method (post_request None (tool_request ''deploy-vercel''
       (JObj [(''projectName'', JStr ''demo'')]) (JNum ''2''))) = JStr ''tools/call''
   \<and> \<not> given (VERCEL_TOKEN bare_host)
   \<and> snd (handler bare_host render_up (post_request None (tool_request ''deploy-vercel''
       (JObj [(''projectName'', JStr ''demo'')]) (JNum ''2'')))) = []
   \<and> payload (fst (handler bare_host render_up (post_request None (tool_request ''deploy-vercel''
       (JObj [(''projectName'', JStr ''demo'')]) (JNum ''2'')))))
       = Some (error_envelope ''VERCEL_TOKEN environment variable is required'' (JNum ''2''))"
proof -
  let ?req = "post_request None (tool_request ''deploy-vercel''
       (JObj [(''projectName'', JStr ''demo'')]) (JNum ''2''))"
  have 1: "req_method ?req = ''POST''" and 2: "rpc_method ?req = JStr ''tools/call''"
    by (simp_all add: sample_defs)
  have 3: "tool_name ?req = JStr ''deploy-vercel'' \<and> \<not> given (VERCEL_TOKEN bare_host)"
    and 4: "\<not> nullish (tool_arguments ?req)"
    and 5: "wire (js_or (rpc_id ?req) JNull) = JNum ''2''"
    by (simp_all add: sample_defs js_or_def)
  from missing_token_no_provider_call [OF 1 2, of bare_host render_up] 1 2 3 4 5 show ?thesis
    by simp
qed

subsection \<open>C5: required arguments\<close>

text \<open>
  C5. A \<^verbatim>\<open>tools/call\<close> that lacks a required argument is to fail before any call to a
  provider. The descriptors of \<^verbatim>\<open>tools/list\<close> declare \<^verbatim>\<open>projectName\<close> and
  \<^verbatim>\<open>serviceId\<close> required, but the handler checks neither: with the tokens set,
  \<^verbatim>\<open>deploy-render\<close> with empty arguments triggers a deployment of the service
  \<^verbatim>\<open>undefined\<close>, and \<^verbatim>\<open>deploy-vercel\<close> with empty arguments creates a deployment
  without a name.
\<close>

theorem deploy_without_required_argument_calls_provider:
  "snd (handler ready_host down (post_request None
      (tool_request ''deploy-render'' (JObj []) (JNum ''1''))))
     = [AxiosPost ''https://api.render.com/v1/services/undefined/deploys'' (JObj [])
          [(''Authorization'', ''Bearer rtok''), (''Content-Type'', ''application/json'')]]
   \<and> snd (handler ready_host down (post_request None
      (tool_request ''deploy-vercel'' (JObj []) (JNum ''1''))))
     = [createDeployment_call ''vtok'' JUndefined JUndefined]"
  by (simp add: sample_defs handler_defs triggerDeployment_call_def render_baseURL_def)

subsection \<open>C6: the listed tools are the dispatched tools\<close>

text \<open>
  C6. Take the reply of the handler to any \<^verbatim>\<open>tools/list\<close> request, and any
  \<^verbatim>\<open>tools/call\<close> request with a params object. The call is rejected with what line 255
  throws exactly when its name is not among the names of that reply. A call of a listed
  name reaches a provider when both tokens are set and it carries an arguments object
  whose \<^verbatim>\<open>serviceId\<close> can be printed; a call of another name reaches none.
\<close>

theorem listed_tools_are_dispatched_tools:
  assumes "req_method lreq = ''POST''" and "rpc_method lreq = JStr ''tools/list''"
    and "payload (fst (handler hl netl lreq)) = Some listing"
    and "req_method req = ''POST''" and "rpc_method req = JStr ''tools/call''"
    and "\<not> nullish (rpc_params req)"
  shows "(tool_name req \<in> set (listed_tool_names listing)) =
           (payload (fst (handler h net req)) \<noteq>
              Some (error_envelope (message (unknown_tool (tool_name req)))
                      (wire (js_or (rpc_id req) JNull))))
       \<and> (tool_name req \<in> set (listed_tool_names listing)
            \<and> given (VERCEL_TOKEN h) \<and> given (RENDER_TOKEN h)
            \<and> \<not> nullish (tool_arguments req)
            \<and> printable (own (tool_arguments req) ''serviceId'') \<longrightarrow>
            snd (handler h net req) \<noteq> [])
       \<and> (tool_name req \<notin> set (listed_tool_names listing) \<longrightarrow> snd (handler h net req) = [])"
proof -
  have names: "listed_tool_names listing = [JStr ''deploy-vercel'', JStr ''deploy-render'']"
    using assms(3) POST_tools_list [OF assms(1,2), of hl netl]
    by (auto simp: listed_tool_names_reply simp del: wire.simps)
  consider (vercel) "tool_name req = JStr ''deploy-vercel''"
    | (render) "tool_name req = JStr ''deploy-render''"
    | (other) "tool_name req \<noteq> JStr ''deploy-vercel''" "tool_name req \<noteq> JStr ''deploy-render''"
    by blast
  then show ?thesis
  proof cases
    case vercel
    have "snd (handler h net req) \<noteq> []"
      if "given (VERCEL_TOKEN h)" "\<not> nullish (tool_arguments req)"
    proof -
      from that(1) obtain tok where "VERCEL_TOKEN h = Some tok" "tok \<noteq> []"
        by (cases "VERCEL_TOKEN h") auto
      with that(2) show ?thesis
        by (simp add: vercel_dispatch(2) [OF assms(4,5) vercel])
    qed
    with vercel show ?thesis
      using vercel_dispatch(1) [OF assms(4,5) vercel, of h net]
      by (auto simp: names unknown_tool_listed)
  next
    case render
    then show ?thesis
      using render_dispatch(1) [OF assms(4,5) render, of h net]
        render_dispatch(3) [OF assms(4,5) render, of h net]
      by (auto simp: names unknown_tool_listed)
  next
    case other
    then show ?thesis
      by (simp add: names other_tool [OF assms(4-6) other])
  qed
qed

text \<open>
  The reply to \<^verbatim>\<open>tools/list\<close> names two tools. \<^verbatim>\<open>list-services\<close> is not among them
  and a call of it is rejected without a call to a provider; \<^verbatim>\<open>deploy-render\<close> is, and
  a call of it triggers a deployment.
\<close>

theorem listed_tools_are_dispatched_tools_witness:
  "listed_tool_names (the (payload (fst (handler bare_host down
       (post_request None (rpc_request ''tools/list'' (JObj []) (JNum ''1'')))))))
     = [JStr ''deploy-vercel'', JStr ''deploy-render'']
   \<and> payload (fst (handler ready_host render_up
        (post_request None (tool_request ''list-services'' (JObj []) (JNum ''5'')))))
       = Some (error_envelope ''Unknown tool: list-services'' (JNum ''5''))
   \<and> snd (handler ready_host render_up
        (post_request None (tool_request ''list-services'' (JObj []) (JNum ''5'')))) = []
   \<and> snd (handler ready_host render_up
        (post_request None (tool_request ''deploy-render''
           (JObj [(''serviceId'', JStr ''srv-1'')]) (JNum ''6''))))
       = [triggerDeployment_call ''rtok'' ''srv-1'']"
proof -
  let ?lreq = "post_request None (rpc_request ''tools/list'' (JObj []) (JNum ''1''))"
  let ?req = "post_request None (tool_request ''list-services'' (JObj []) (JNum ''5''))"
  let ?dep = "post_request None (tool_request ''deploy-render''
           (JObj [(''serviceId'', JStr ''srv-1'')]) (JNum ''6''))"
  let ?listing = "wire (result_envelope tools_list_result (JNum ''1''))"
  have l: "req_method ?lreq = ''POST''" "rpc_method ?lreq = JStr ''tools/list''"
    "payload (fst (handler bare_host down ?lreq)) = Some ?listing"
    by (simp_all add: sample_defs handler_defs del: wire.simps)
  have c: "req_method ?req = ''POST''" "rpc_method ?req = JStr ''tools/call''"
    "\<not> nullish (rpc_params ?req)"
    by (simp_all add: sample_defs)
  have d: "req_method ?dep = ''POST''" "rpc_method ?dep = JStr ''tools/call''"
    "\<not> nullish (rpc_params ?dep)"
    by (simp_all add: sample_defs)
  have n: "listed_tool_names ?listing = [JStr ''deploy-vercel'', JStr ''deploy-render'']"
    by (rule listed_tool_names_reply)
  have e: "snd (handler ready_host render_up ?dep) = [triggerDeployment_call ''rtok'' ''srv-1'']"
    by (simp add: sample_defs handler_defs triggerDeployment_call_def render_text_def
        to_primitive_def)
  from listed_tools_are_dispatched_tools [OF l c, of ready_host render_up]
    listed_tools_are_dispatched_tools [OF l d, of ready_host render_up] l n e
  show ?thesis
    by (simp add: sample_defs js_or_def unknown_tool_def new_Error_def)
qed

subsection \<open>C7: an unknown method\<close>

text \<open>
  C7. A POST whose method is not a recognised one is to be answered with an error
  envelope that keeps the id of the request. The error is
  \<^verbatim>\<open>Unknown method: <method>\<close>, but the id is computed by line 268 as
  \<^verbatim>\<open>req.body?.id || null\<close>: for the id 0 the reply carries the id null, where the
  id 7 is kept.
\<close>

theorem unknown_method_drops_id_zero:
  "handler bare_host down (post_request None (rpc_request ''unknown'' (JObj []) (JNum ''0'')))
     = (\<lparr>status = 200, headers = post_headers bare_host None,
         payload = Some (error_envelope ''Unknown method: unknown'' JNull)\<rparr>, [])
   \<and> handler bare_host down (post_request None (rpc_request ''unknown'' (JObj []) (JNum ''7'')))
     = (\<lparr>status = 200, headers = post_headers bare_host None,
         payload = Some (error_envelope ''Unknown method: unknown'' (JNum ''7''))\<rparr>, [])"
  by (simp add: sample_defs handler_defs)

subsection \<open>C8: the tool names the dispatcher knows\<close>

text \<open>
  C8, as stated: all four declared tools are dispatched. The handler of
  \<^verbatim>\<open>src/api/mcp.ts\<close> rejects \<^verbatim>\<open>list-services\<close>, one of the four names registered
  with the SDK-based server, as an unknown tool.
\<close>

theorem list_services_is_unknown_tool:
  "''list-services'' \<in> set server_tool_names
   \<and> handler ready_host render_up (post_request None
      (tool_request ''list-services'' (JObj [(''platform'', JStr ''render'')]) (JNum ''1'')))
     = (\<lparr>status = 200, headers = post_headers ready_host None,
         payload = Some (error_envelope ''Unknown tool: list-services'' (JNum ''1''))\<rparr>, [])"
  by (simp add: sample_defs handler_defs server_tool_names_def)

text \<open>
  C8, amended. The handler of \<^verbatim>\<open>src/api/mcp.ts\<close> lists and dispatches two tools.
  Its reply to \<^verbatim>\<open>tools/list\<close> names \<^verbatim>\<open>deploy-vercel\<close> and \<^verbatim>\<open>deploy-render\<close>
  and nothing else. A call of \<^verbatim>\<open>deploy-vercel\<close> with an arguments object, on a
  process with a Vercel token, creates a deployment of the given project; a call of
  \<^verbatim>\<open>deploy-render\<close> with a service identifier, on a process with a Render token,
  triggers a deployment of that service. A call (with a params object) of any other name,
  \<^verbatim>\<open>check-deployment-status\<close> and \<^verbatim>\<open>list-services\<close> among them, makes no call to
  a provider and is answered with what line 255 throws: the error
  \<^verbatim>\<open>Unknown tool: <name>\<close> whenever the name can be printed.
\<close>

theorem two_tools_are_listed_and_dispatched:
  assumes "req_method lreq = ''POST''" and "rpc_method lreq = JStr ''tools/list''"
    and "req_method req = ''POST''" and "rpc_method req = JStr ''tools/call''"
    and "\<not> nullish (rpc_params req)"
  shows "(\<exists>listing. payload (fst (handler hl netl lreq)) = Some listing
            \<and> listed_tool_names listing = [JStr ''deploy-vercel'', JStr ''deploy-render''])
       \<and> (tool_name req = JStr ''deploy-vercel'' \<and> VERCEL_TOKEN h = Some tok \<and> tok \<noteq> []
            \<and> \<not> nullish (tool_arguments req) \<longrightarrow>
            snd (handler h net req) =
              [createDeployment_call tok (own (tool_arguments req) ''projectName'')
                 (gitSource_of (tool_arguments req))])
       \<and> (tool_name req = JStr ''deploy-render'' \<and> RENDER_TOKEN h = Some tok \<and> tok \<noteq> []
            \<and> truthy (own (tool_arguments req) ''serviceId'')
            \<and> to_string (own (tool_arguments req) ''serviceId'') = Inr sid \<longrightarrow>
            snd (handler h net req) = [triggerDeployment_call tok sid])
       \<and> (tool_name req \<noteq> JStr ''deploy-vercel'' \<and> tool_name req \<noteq> JStr ''deploy-render'' \<longrightarrow>
            handler h net req =
              (\<lparr>status = 200, headers = post_headers h (req_mcp_session_id req),
                payload = Some (error_envelope (message (unknown_tool (tool_name req)))
                                  (wire (js_or (rpc_id req) JNull)))\<rparr>, [])
            \<and> (to_string (tool_name req) = Inr shown \<longrightarrow>
                 unknown_tool (tool_name req) = Error (''Unknown tool: '' @ shown)))"
proof (intro conjI impI)
  show "\<exists>listing. payload (fst (handler hl netl lreq)) = Some listing
      \<and> listed_tool_names listing = [JStr ''deploy-vercel'', JStr ''deploy-render'']"
    using POST_tools_list [OF assms(1,2), of hl netl] listed_tool_names_reply by simp
next
  assume "tool_name req = JStr ''deploy-vercel'' \<and> VERCEL_TOKEN h = Some tok \<and> tok \<noteq> []
            \<and> \<not> nullish (tool_arguments req)"
  then show "snd (handler h net req) =
              [createDeployment_call tok (own (tool_arguments req) ''projectName'')
                 (gitSource_of (tool_arguments req))]"
    using vercel_dispatch(2) [OF assms(3,4)] by blast
next
  assume "tool_name req = JStr ''deploy-render'' \<and> RENDER_TOKEN h = Some tok \<and> tok \<noteq> []
            \<and> truthy (own (tool_arguments req) ''serviceId'')
            \<and> to_string (own (tool_arguments req) ''serviceId'') = Inr sid"
  then show "snd (handler h net req) = [triggerDeployment_call tok sid]"
    using render_dispatch(2) [OF assms(3,4)] by blast
next
  assume "tool_name req \<noteq> JStr ''deploy-vercel'' \<and> tool_name req \<noteq> JStr ''deploy-render''"
  then show "handler h net req =
              (\<lparr>status = 200, headers = post_headers h (req_mcp_session_id req),
                payload = Some (error_envelope (message (unknown_tool (tool_name req)))
                                  (wire (js_or (rpc_id req) JNull)))\<rparr>, [])"
    using other_tool [OF assms(3-5)] by blast
next
  assume "to_string (tool_name req) = Inr shown"
  then show "unknown_tool (tool_name req) = Error (''Unknown tool: '' @ shown)"
    by (simp add: unknown_tool_def new_Error_def)
qed

text \<open>
  The listing, a status check that is rejected, and a Vercel deployment that reaches the
  provider.
\<close>

theorem two_tools_are_listed_and_dispatched_witness:
  "listed_tool_names (the (payload (fst (handler bare_host down
       (post_request None (rpc_request ''tools/list'' (JObj []) (JNum ''1'')))))))
     = [JStr ''deploy-vercel'', JStr ''deploy-render'']
   \<and> handler ready_host render_up (post_request None
      (tool_request ''check-deployment-status''
         (JObj [(''platform'', JStr ''vercel''), (''id'', JStr ''dpl_1'')]) (JNum ''6'')))
     = (\<lparr>status = 200, headers = post_headers ready_host None,
         payload = Some (error_envelope ''Unknown tool: check-deployment-status''
                           (JNum ''6''))\<rparr>, [])
   \<and> snd (handler ready_host render_up (post_request None
      (tool_request ''deploy-vercel'' (JObj [(''projectName'', JStr ''demo'')]) (JNum ''7''))))
     = [createDeployment_call ''vtok'' (JStr ''demo'') JUndefined]"
proof -
  let ?lreq = "post_request None (rpc_request ''tools/list'' (JObj []) (JNum ''1''))"
  let ?req = "post_request None (tool_request ''check-deployment-status''
         (JObj [(''platform'', JStr ''vercel''), (''id'', JStr ''dpl_1'')]) (JNum ''6''))"
  let ?dep = "post_request None
      (tool_request ''deploy-vercel'' (JObj [(''projectName'', JStr ''demo'')]) (JNum ''7''))"
  have l: "req_method ?lreq = ''POST''" "rpc_method ?lreq = JStr ''tools/list''"
    by (simp_all add: sample_defs)
  have c: "req_method ?req = ''POST''" "rpc_method ?req = JStr ''tools/call''"
    "\<not> nullish (rpc_params ?req)"
    by (simp_all add: sample_defs)
  have d: "req_method ?dep = ''POST''" "rpc_method ?dep = JStr ''tools/call''"
    "\<not> nullish (rpc_params ?dep)"
    by (simp_all add: sample_defs)
  from two_tools_are_listed_and_dispatched [OF l c, of bare_host down ready_host "''vtok''"
      render_up "''x''" "''check-deployment-status''"]
    two_tools_are_listed_and_dispatched [OF l d, of bare_host down ready_host "''vtok''"
      render_up "''x''" "''deploy-vercel''"]
  show ?thesis
    by (auto simp add: sample_defs js_or_def gitSource_of_def)
qed

subsection \<open>C9: the session identifier\<close>




subsection \<open>C10: one error code\<close>

text \<open>
  C10. Every error envelope of a POST carries the code -32000: its \<^verbatim>\<open>error\<close> is an
  object of exactly the two fields \<^verbatim>\<open>code\<close>, which is -32000, and \<^verbatim>\<open>message\<close>, a
  string; only the message tells the kinds of failure apart.
\<close>

theorem error_code_is_always_minus_32000:
  assumes "req_method req = ''POST''"
    and "payload (fst (handler h net req)) = Some p"
    and "has_key p ''error''"
  shows "\<exists>m. own p ''error'' = JObj [(''code'', JNum ''-32000''), (''message'', JStr m)]"
proof (cases "post_try h net (req_body req)")
  case (Pair out cs)
  show ?thesis
  proof (cases out)
    case (Inl e)
    with Pair assms show ?thesis
      by (auto simp add: handler_POST error_envelope_def)
  next
    case (Inr env)
    with Pair obtain r where env: "env = result_envelope (JObj r) (own (req_body req) ''id'')"
      using post_try_Inr by blast
    with Pair Inr assms show ?thesis
      by (auto simp add: handler_POST wire_result_envelope simp del: wire.simps split: if_splits)
  qed
qed

text \<open>An unknown method, asked with the id 4.\<close>

theorem error_code_is_always_minus_32000_witness:
  "req_method (post_request None (rpc_request ''ping'' (JObj []) (JNum ''4''))) = ''POST''
   \<and> payload (fst (handler ready_host down
         (post_request None (rpc_request ''ping'' (JObj []) (JNum ''4'')))))
       = Some (error_envelope ''Unknown method: ping'' (JNum ''4''))
   \<and> has_key (error_envelope ''Unknown method: ping'' (JNum ''4'')) ''error''
   \<and> (\<exists>m. own (error_envelope ''Unknown method: ping'' (JNum ''4'')) ''error''
          = JObj [(''code'', JNum ''-32000''), (''message'', JStr m)])"
proof -
  let ?req = "post_request None (rpc_request ''ping'' (JObj []) (JNum ''4''))"
  let ?p = "error_envelope ''Unknown method: ping'' (JNum ''4'')"
  have 1: "req_method ?req = ''POST''"
    by (simp add: post_request_def)
  have 2: "payload (fst (handler ready_host down ?req)) = Some ?p"
    by (simp add: sample_defs handler_defs)
  have 3: "has_key ?p ''error''"
    by (simp add: error_envelope_def)
  from 1 2 3 error_code_is_always_minus_32000 [OF 1 2 3] show ?thesis
    by simp
qed

end
